theory Spec2Isabelle
  imports Main
begin

section \<open>Blink and Bloom development server (server.py)\<close>

text \<open>
  The program is one function, \<^verbatim>\<open>main\<close>, that changes the working directory, builds a
  request handler class that adds two headers, binds a TCP server on a fixed port,
  prints a banner, opens a browser unless told not to, and serves until an exception
  ends it. Everything it does is an effect on the outside world, so the model is a
  function from the relevant facts of the world (the command line, what standard output
  can encode, the outcome of the bind, of the browser call and of serving) to the list
  of effects performed and the way the process ends.
\<close>

subsection \<open>Text as Python formats it\<close>

text \<open>
  Strings are lists of 8-bit characters. The source file is UTF-8, and a character
  outside ASCII (the pictographs of the messages) stands here as its UTF-8 bytes.
  \<^verbatim>\<open>str\<close> of an integer is its decimal numeral, with a minus sign when negative.
\<close>

definition digits :: string where
  "digits = ''0123456789''"

fun str_nat :: "nat \<Rightarrow> string" where
  "str_nat n = (if n < 10 then [digits ! n] else str_nat (n div 10) @ [digits ! (n mod 10)])"

declare str_nat.simps [simp del]

definition str_int :: "int \<Rightarrow> string" where
  "str_int i = (if i < 0 then CHR ''-'' # str_nat (nat (- i)) else str_nat (nat i))"

subsection \<open>Exceptions, effects and the world\<close>

text \<open>
  The two exception classes the \<^verbatim>\<open>try\<close> statement names, the exception \<^verbatim>\<open>print\<close>
  raises when standard output cannot encode a character (a \<^verbatim>\<open>ValueError\<close>, so not an
  \<^verbatim>\<open>OSError\<close>), and any other exception. An \<^verbatim>\<open>OSError\<close> carries \<^verbatim>\<open>errno\<close> and
  \<^verbatim>\<open>strerror\<close>; its \<^verbatim>\<open>str\<close> is \<^verbatim>\<open>[Errno n] strerror\<close>.
\<close>

datatype exn = KeyboardInterrupt | OSError int string | UnicodeEncodeError | OtherException string

definition str_OSError :: "int \<Rightarrow> string \<Rightarrow> string" where
  "str_OSError n s = ''[Errno '' @ str_int n @ ''] '' @ s"

text \<open>
  The effects of the program, in the order it performs them: \<^verbatim>\<open>os.chdir\<close>, the
  construction of \<^verbatim>\<open>socketserver.TCPServer((host, port), handler)\<close>, a \<^verbatim>\<open>print\<close> that
  wrote its line, the call of \<^verbatim>\<open>webbrowser.open\<close>, the call of
  \<^verbatim>\<open>httpd.serve_forever()\<close>, and the \<^verbatim>\<open>server_close\<close> that leaving the \<^verbatim>\<open>with\<close> block
  performs.
\<close>

datatype event =
    Chdir string
  | Bind string int
  | Print string
  | BrowserOpen string
  | ServeForever
  | ServerClose

text \<open>
  What the program reads from its surroundings. \<^verbatim>\<open>os.path.abspath\<close>,
  \<^verbatim>\<open>os.path.dirname\<close> and \<^verbatim>\<open>os.getcwd\<close> (the path the system reports for the directory
  entered, symbolic links resolved) belong to the Python library and are taken as they
  are given. \<open>unicode_stdout\<close> says whether the encoding of \<^verbatim>\<open>sys.stdout\<close> can encode
  characters outside ASCII. The constructor of the server either binds (\<open>None\<close>) or
  raises. \<^verbatim>\<open>webbrowser.open\<close> either raises (\<open>Inl\<close>) or returns whether a browser was
  launched (\<open>Inr\<close>). \<^verbatim>\<open>serve_forever\<close> has no normal return in this program (nothing
  calls \<^verbatim>\<open>shutdown\<close>), so it either runs without end (\<open>None\<close>) or is ended by an
  exception.
\<close>

record world =
  argv :: "string list"
  environ :: "(string \<times> string) list"
  script_file :: string
  abspath :: "string \<Rightarrow> string"
  dirname :: "string \<Rightarrow> string"
  getcwd :: "string \<Rightarrow> string"
  start_cwd :: string
  unicode_stdout :: bool
  bind_raises :: "exn option"
  browser_result :: "exn + bool"
  serve_raises :: "exn option"

record state =
  cwd :: string
  trace :: "event list"

datatype outcome = Returned | Uncaught exn | Serving

text \<open>
  The exit status of the interpreter: 0 when \<^verbatim>\<open>main\<close> returns and the script ends,
  1 with a traceback when an exception is not caught, none while the server runs.
\<close>

fun exit_code :: "outcome \<Rightarrow> int option" where
  "exit_code Returned = Some 0"
| "exit_code (Uncaught e) = Some 1"
| "exit_code Serving = None"


text \<open>
  A statement takes the state and gives the new state, and the exception it raised if
  it raised one. A block runs its statements in order and stops at the first exception.
\<close>

type_synonym step = "state \<Rightarrow> state \<times> exn option"

fun run :: "step list \<Rightarrow> step" where
  "run [] s = (s, None)"
| "run (f # fs) s = (case f s of (s', None) \<Rightarrow> run fs s' | (s', Some e) \<Rightarrow> (s', Some e))"

definition emit :: "event \<Rightarrow> state \<Rightarrow> state" where
  "emit e s = s\<lparr>trace := trace s @ [e]\<rparr>"

definition chdir :: "string \<Rightarrow> state \<Rightarrow> state" where
  "chdir d s = emit (Chdir d) (s\<lparr>cwd := d\<rparr>)"

text \<open>
  \<^verbatim>\<open>print\<close> encodes its line for standard output before it writes anything. A line of
  ASCII characters (bytes below 128 here) can always be encoded; a line with any other
  character only when standard output can encode such characters, and otherwise
  \<^verbatim>\<open>print\<close> raises \<^verbatim>\<open>UnicodeEncodeError\<close> and writes nothing.
\<close>

definition ascii :: "string \<Rightarrow> bool" where
  "ascii x = list_all (\<lambda>c. \<not> digit7 c) x"

definition printable :: "world \<Rightarrow> string \<Rightarrow> bool" where
  "printable w x = (unicode_stdout w \<or> ascii x)"

definition print :: "world \<Rightarrow> string \<Rightarrow> step" where
  "print w x s = (if printable w x then (emit (Print x) s, None) else (s, Some UnicodeEncodeError))"

subsection \<open>The function main\<close>

definition PORT :: int where
  "PORT = 8000"

text \<open>The eight lines of the banner; \<open>d\<close> is what \<^verbatim>\<open>os.getcwd()\<close> returns.\<close>

definition banner :: "string \<Rightarrow> string list" where
  "banner d =
    [ [CHR 0xF0, CHR 0x9F, CHR 0x8C, CHR 0xB1] @
        '' Blink & Bloom server starting at http://localhost:'' @ str_int PORT,
      [CHR 0xF0, CHR 0x9F, CHR 0x93, CHR 0x81] @ '' Serving files from: '' @ d,
      ''\<newline>Available pages:'',
      ''  '' @ [CHR 0xF0, CHR 0x9F, CHR 0x8E, CHR 0xAE] @
        '' Main Game: http://localhost:'' @ str_int PORT @ ''/index.html'',
      ''  '' @ [CHR 0xF0, CHR 0x9F, CHR 0x91, CHR 0x81, CHR 0xEF, CHR 0xB8, CHR 0x8F] @
        ''  Gaze Test: http://localhost:'' @ str_int PORT @ ''/gaze_test.html'',
      ''\<newline>'' @ [CHR 0xE2, CHR 0x9A, CHR 0xA0, CHR 0xEF, CHR 0xB8, CHR 0x8F] @
        ''  Note: Camera access requires HTTPS in production'',
      [CHR 0xF0, CHR 0x9F, CHR 0x92, CHR 0xA1] @
        '' For HTTPS, use: python -m http.server --bind 127.0.0.1 --protocol HTTPS'',
      ''\<newline>Press Ctrl+C to stop the server'' ]"

text \<open>The test of line 40: \<^verbatim>\<open>len(sys.argv) > 1 and sys.argv[1] == '--no-browser'\<close>.\<close>

definition no_browser :: "string list \<Rightarrow> bool" where
  "no_browser av = (length av > 1 \<and> av ! 1 = ''--no-browser'')"

definition index_url :: string where
  "index_url = ''http://localhost:'' @ str_int PORT @ ''/index.html''"

text \<open>
  Line 43: the call of \<^verbatim>\<open>webbrowser.open\<close>, with no \<^verbatim>\<open>try\<close> of its own. When the call
  returns, the value returned is not used. Line 45: \<^verbatim>\<open>serve_forever\<close>, the last
  statement of the block; it does not return, so a block that ends with no exception
  is one that is serving.
\<close>

definition browser_open :: "world \<Rightarrow> string \<Rightarrow> step" where
  "browser_open w u s =
     (emit (BrowserOpen u) s, case browser_result w of Inl e \<Rightarrow> Some e | Inr b \<Rightarrow> None)"

definition serve_forever :: "world \<Rightarrow> step" where
  "serve_forever w s = (emit ServeForever s, serve_raises w)"

text \<open>The body of the \<^verbatim>\<open>with\<close> statement, entered once the server is bound.\<close>

definition with_body :: "world \<Rightarrow> step" where
  "with_body w s =
     run (map (print w) (banner (getcwd w (cwd s))) @
          (if no_browser (argv w) then [] else [browser_open w index_url]) @
          [serve_forever w]) s"

text \<open>
  The \<^verbatim>\<open>try\<close> block: the constructor of the server, then the body. An exception raised
  in the body leaves the \<^verbatim>\<open>with\<close> block, which closes the server.
\<close>

definition try_block :: "world \<Rightarrow> step" where
  "try_block w s =
    (let s1 = emit (Bind [] PORT) s in
     case bind_raises w of
       Some e \<Rightarrow> (s1, Some e)
     | None \<Rightarrow>
        (case with_body w s1 of
           (s2, None) \<Rightarrow> (s2, None)
         | (s2, Some e) \<Rightarrow> (emit ServerClose s2, Some e)))"

text \<open>
  The two \<^verbatim>\<open>except\<close> clauses; any other exception leaves \<^verbatim>\<open>main\<close>. An exception that
  a clause itself raises is caught by nothing and leaves \<^verbatim>\<open>main\<close> too.
\<close>

definition stopped_msg :: string where
  "stopped_msg = ''\<newline>'' @ [CHR 0xF0, CHR 0x9F, CHR 0x9B, CHR 0x91] @ '' Server stopped''"

definition in_use_msg :: string where
  "in_use_msg = [CHR 0xE2, CHR 0x9D, CHR 0x8C] @ '' Port '' @ str_int PORT @ '' is already in use''"

definition in_use_hint :: string where
  "in_use_hint = ''Try a different port or stop the existing server''"

definition error_msg :: "int \<Rightarrow> string \<Rightarrow> string" where
  "error_msg n m = [CHR 0xE2, CHR 0x9D, CHR 0x8C] @ '' Error starting server: '' @ str_OSError n m"

definition finish :: "state \<times> exn option \<Rightarrow> state \<times> outcome" where
  "finish r = (case r of (s, None) \<Rightarrow> (s, Returned) | (s, Some e) \<Rightarrow> (s, Uncaught e))"

fun handlers :: "world \<Rightarrow> exn \<Rightarrow> state \<Rightarrow> state \<times> outcome" where
  "handlers w KeyboardInterrupt s = finish (print w stopped_msg s)"
| "handlers w (OSError n m) s =
    (if n = 48 then finish (run [print w in_use_msg, print w in_use_hint] s)
     else finish (print w (error_msg n m) s))"
| "handlers w UnicodeEncodeError s = (s, Uncaught UnicodeEncodeError)"
| "handlers w (OtherException x) s = (s, Uncaught (OtherException x))"

definition main :: "world \<Rightarrow> state \<times> outcome" where
  "main w =
    (let s0 = \<lparr>cwd = start_cwd w, trace = []\<rparr>;
         s1 = chdir (dirname w (abspath w (script_file w))) s0
     in case try_block w s1 of
          (s2, None) \<Rightarrow> (s2, Serving)
        | (s2, Some e) \<Rightarrow> handlers w e s2)"

definition events :: "world \<Rightarrow> event list" where
  "events w = trace (fst (main w))"

definition ending :: "world \<Rightarrow> outcome" where
  "ending w = snd (main w)"

definition serving_root :: "world \<Rightarrow> string" where
  "serving_root w = dirname w (abspath w (script_file w))"

subsection \<open>Reading a list of effects\<close>

text \<open>
  What the \<^verbatim>\<open>except\<close> clauses print for an exception and how \<^verbatim>\<open>main\<close> then ends, given
  whether standard output can encode the pictograph each message starts with; and what
  follows the banner in a run that printed it.
\<close>

fun diagnostics :: "bool \<Rightarrow> exn \<Rightarrow> event list" where
  "diagnostics u KeyboardInterrupt = (if u then [Print stopped_msg] else [])"
| "diagnostics u (OSError n m) =
    (if u then (if n = 48 then [Print in_use_msg, Print in_use_hint] else [Print (error_msg n m)])
     else [])"
| "diagnostics u UnicodeEncodeError = []"
| "diagnostics u (OtherException x) = []"

fun caught :: "bool \<Rightarrow> exn \<Rightarrow> outcome" where
  "caught u KeyboardInterrupt = (if u then Returned else Uncaught UnicodeEncodeError)"
| "caught u (OSError n m) = (if u then Returned else Uncaught UnicodeEncodeError)"
| "caught u UnicodeEncodeError = Uncaught UnicodeEncodeError"
| "caught u (OtherException x) = Uncaught (OtherException x)"

definition serving :: "world \<Rightarrow> event list" where
  "serving w = ServeForever #
     (case serve_raises w of
        None \<Rightarrow> []
      | Some e \<Rightarrow> ServerClose # diagnostics (unicode_stdout w) e)"

definition after_banner :: "world \<Rightarrow> event list" where
  "after_banner w =
     (if no_browser (argv w) then serving w
      else BrowserOpen index_url #
        (case browser_result w of
           Inl e \<Rightarrow> ServerClose # diagnostics (unicode_stdout w) e
         | Inr b \<Rightarrow> serving w))"


fun binds :: "event list \<Rightarrow> (string \<times> int) list" where
  "binds [] = []"
| "binds (Bind h p # es) = (h, p) # binds es"
| "binds (e # es) = binds es"

fun is_open :: "event \<Rightarrow> bool" where
  "is_open (BrowserOpen u) = True"
| "is_open e = False"

subsection \<open>Example worlds\<close>

text \<open>
  A directory function for the examples: everything before the last slash. The script
  is \<^verbatim>\<open>/srv/blink_and_bloom/server.py\<close>, started as \<^verbatim>\<open>python server.py\<close> on a terminal
  that encodes UTF-8; the port is free, a browser is launched, nothing interrupts.
\<close>

definition example_dirname :: "string \<Rightarrow> string" where
  "example_dirname p = rev (drop 1 (dropWhile (\<lambda>c. c \<noteq> CHR ''/'') (rev p)))"

definition plain_world :: world where
  "plain_world = \<lparr>argv = [''server.py''], environ = [(''HOME'', ''/root'')],
     script_file = ''server.py'', abspath = (\<lambda>p. ''/srv/blink_and_bloom/'' @ p),
     dirname = example_dirname, getcwd = (\<lambda>d. d), start_cwd = ''/root'',
     unicode_stdout = True, bind_raises = None, browser_result = Inr True,
     serve_raises = None\<rparr>"





text \<open>No browser can be launched; and a browser call that raises \<^verbatim>\<open>webbrowser.Error\<close>.\<close>

definition no_browser_found_world :: world where
  "no_browser_found_world = plain_world\<lparr>browser_result := Inr False\<rparr>"

definition browser_error_world :: world where
  "browser_error_world =
     plain_world\<lparr>browser_result := Inl (OtherException ''webbrowser.Error'')\<rparr>"

text \<open>
  The port is taken. \<^verbatim>\<open>EADDRINUSE\<close> is a constant of the operating system: 48 on macOS
  and the BSDs, 98 on Linux (where 48 is \<^verbatim>\<open>ELNRNG\<close>), 10048 on Windows.
\<close>

definition EADDRINUSE_bsd :: int where
  "EADDRINUSE_bsd = 48"

definition EADDRINUSE_linux :: int where
  "EADDRINUSE_linux = 98"

definition port_taken_bsd :: world where
  "port_taken_bsd =
     plain_world\<lparr>bind_raises := Some (OSError EADDRINUSE_bsd ''Address already in use'')\<rparr>"

definition port_taken_linux :: world where
  "port_taken_linux =
     plain_world\<lparr>bind_raises := Some (OSError EADDRINUSE_linux ''Address already in use'')\<rparr>"



subsection \<open>The request handler\<close>

text \<open>
  \<^verbatim>\<open>CORSHTTPRequestHandler\<close> overrides \<^verbatim>\<open>end_headers\<close> of
  \<^verbatim>\<open>http.server.SimpleHTTPRequestHandler\<close>: it sends two headers and then calls the
  method of the base class. The base class belongs to the Python library; these are its
  methods \<^verbatim>\<open>send_response_only\<close>, \<^verbatim>\<open>send_header\<close>, \<^verbatim>\<open>end_headers\<close> and
  \<^verbatim>\<open>flush_headers\<close> on the fields they use. Each of the first three does nothing to the
  buffer when the version of the request is \<^verbatim>\<open>HTTP/0.9\<close>: that is the version of a
  request line with no version, and the one in effect while a request line is being
  rejected. (\<^verbatim>\<open>send_header\<close> also records a \<^verbatim>\<open>Connection\<close> header for the connection
  handling, which plays no part here.)
\<close>

record handler =
  request_version :: string
  protocol_version :: string
  headers_buffer :: "string list"
  wfile :: string

definition CRLF :: string where
  "CRLF = [CHR 0x0D, CHR 0x0A]"

definition send_response_only :: "int \<Rightarrow> string \<Rightarrow> handler \<Rightarrow> handler" where
  "send_response_only code message h =
     (if request_version h \<noteq> ''HTTP/0.9'' then
        h\<lparr>headers_buffer := headers_buffer h @
            [protocol_version h @ '' '' @ str_int code @ '' '' @ message @ CRLF]\<rparr>
      else h)"

definition send_header :: "string \<Rightarrow> string \<Rightarrow> handler \<Rightarrow> handler" where
  "send_header keyword v h =
     (if request_version h \<noteq> ''HTTP/0.9'' then
        h\<lparr>headers_buffer := headers_buffer h @ [keyword @ '': '' @ v @ CRLF]\<rparr>
      else h)"

definition flush_headers :: "handler \<Rightarrow> handler" where
  "flush_headers h = h\<lparr>wfile := wfile h @ concat (headers_buffer h), headers_buffer := []\<rparr>"

definition base_end_headers :: "handler \<Rightarrow> handler" where
  "base_end_headers h =
     (if request_version h \<noteq> ''HTTP/0.9'' then
        flush_headers (h\<lparr>headers_buffer := headers_buffer h @ [CRLF]\<rparr>)
      else h)"

text \<open>Lines 23 to 26 of the source.\<close>

definition end_headers :: "handler \<Rightarrow> handler" where
  "end_headers h =
    base_end_headers
      (send_header ''Cross-Origin-Opener-Policy'' ''same-origin''
        (send_header ''Cross-Origin-Embedder-Policy'' ''require-corp'' h))"

text \<open>
  A response of the server to a request with the given version in effect: the generic
  handler decides, from the requested path, a status and the headers of its own (any
  function will do; the \<^verbatim>\<open>Server\<close> and \<^verbatim>\<open>Date\<close> headers of \<^verbatim>\<open>send_response\<close> are among
  them), sends them, and ends the headers through the overridden method.
\<close>

definition respond ::
  "(string \<Rightarrow> (int \<times> string) \<times> (string \<times> string) list) \<Rightarrow> string \<Rightarrow> string \<Rightarrow> handler" where
  "respond generic version path =
    (case generic path of
       ((code, message), hs) \<Rightarrow>
         end_headers (fold (\<lambda>(k, v). send_header k v) hs
           (send_response_only code message
             \<lparr>request_version = version, protocol_version = ''HTTP/1.0'',
              headers_buffer = [], wfile = []\<rparr>)))"

text \<open>A generic handler for the examples: the file is there.\<close>

definition file_found :: "string \<Rightarrow> (int \<times> string) \<times> (string \<times> string) list" where
  "file_found p = ((200, ''OK''), [(''Content-type'', ''text/html''), (''Content-Length'', ''512'')])"

section \<open>Properties\<close>

subsection \<open>The effects of main, in closed form\<close>

lemma not_ascii_pictograph [simp]:
  "\<not> ascii stopped_msg" "\<not> ascii in_use_msg" "\<not> ascii (error_msg n m)" "ascii in_use_hint"
  by (simp_all add: ascii_def stopped_msg_def in_use_msg_def error_msg_def in_use_hint_def)

lemma printable_messages [simp]:
  "printable w stopped_msg = unicode_stdout w"
  "printable w in_use_msg = unicode_stdout w"
  "printable w (error_msg n m) = unicode_stdout w"
  "printable w in_use_hint"
  by (simp_all add: printable_def)

lemma run_append_prints:
  "unicode_stdout w \<Longrightarrow>
     run (map (print w) xs @ fs) s = run fs (s\<lparr>trace := trace s @ map Print xs\<rparr>)"
  by (induction xs arbitrary: s) (simp_all add: print_def printable_def emit_def)

lemma run_banner_fails:
  "\<not> unicode_stdout w \<Longrightarrow> run (map (print w) (banner d) @ fs) s = (s, Some UnicodeEncodeError)"
  by (simp add: banner_def print_def printable_def ascii_def)

lemma handlers_eq:
  "handlers w e s =
     (s\<lparr>trace := trace s @ diagnostics (unicode_stdout w) e\<rparr>, caught (unicode_stdout w) e)"
  by (cases e) (simp_all add: finish_def print_def emit_def)

lemma with_body_eq:
  "with_body w s =
     (if unicode_stdout w then
        (s\<lparr>trace := trace s @ map Print (banner (getcwd w (cwd s))) @
             (if no_browser (argv w) then [ServeForever]
              else BrowserOpen index_url #
                (case browser_result w of Inl e \<Rightarrow> [] | Inr b \<Rightarrow> [ServeForever]))\<rparr>,
         if no_browser (argv w) then serve_raises w
         else (case browser_result w of Inl e \<Rightarrow> Some e | Inr b \<Rightarrow> serve_raises w))
      else (s, Some UnicodeEncodeError))"
  by (auto simp add: with_body_def run_append_prints run_banner_fails browser_open_def
      serve_forever_def emit_def split: sum.split option.split)

lemma main_eq:
  "main w =
    (\<lparr>cwd = serving_root w,
      trace = Chdir (serving_root w) # Bind [] PORT #
        (case bind_raises w of
           Some e \<Rightarrow> diagnostics (unicode_stdout w) e
         | None \<Rightarrow>
            if unicode_stdout w
            then map Print (banner (getcwd w (serving_root w))) @ after_banner w
            else [ServerClose])\<rparr>,
     case bind_raises w of
       Some e \<Rightarrow> caught (unicode_stdout w) e
     | None \<Rightarrow>
        if \<not> unicode_stdout w then Uncaught UnicodeEncodeError
        else if no_browser (argv w)
        then (case serve_raises w of None \<Rightarrow> Serving | Some e \<Rightarrow> caught True e)
        else (case browser_result w of
                Inl e \<Rightarrow> caught True e
              | Inr b \<Rightarrow> (case serve_raises w of None \<Rightarrow> Serving | Some e \<Rightarrow> caught True e)))"
  by (auto simp add: main_def try_block_def with_body_eq handlers_eq chdir_def emit_def Let_def
      serving_root_def after_banner_def serving_def
      split: option.split sum.split)


lemma events_eq:
  "events w = Chdir (serving_root w) # Bind [] PORT #
     (case bind_raises w of
        Some e \<Rightarrow> diagnostics (unicode_stdout w) e
      | None \<Rightarrow>
          if unicode_stdout w
          then map Print (banner (getcwd w (serving_root w))) @ after_banner w
          else [ServerClose])"
  by (simp add: events_def main_eq)

lemma ending_eq:
  "ending w =
     (case bind_raises w of
        Some e \<Rightarrow> caught (unicode_stdout w) e
      | None \<Rightarrow>
         if \<not> unicode_stdout w then Uncaught UnicodeEncodeError
         else if no_browser (argv w)
         then (case serve_raises w of None \<Rightarrow> Serving | Some e \<Rightarrow> caught True e)
         else (case browser_result w of
                 Inl e \<Rightarrow> caught True e
               | Inr b \<Rightarrow> (case serve_raises w of None \<Rightarrow> Serving | Some e \<Rightarrow> caught True e)))"
  by (simp add: ending_def main_eq)

lemma final_cwd: "cwd (fst (main w)) = serving_root w"
  by (simp add: main_eq)

lemma index_url_eq: "index_url = ''http://localhost:8000/index.html''"
  by (simp add: index_url_def PORT_def str_int_def str_nat.simps digits_def)






lemma binds_append: "binds (xs @ ys) = binds xs @ binds ys"
  by (induction xs rule: binds.induct) simp_all

lemma binds_prints: "binds (map Print xs) = []"
  by (induction xs) simp_all

lemma binds_diagnostics: "binds (diagnostics u e) = []"
  by (cases e) simp_all

lemma binds_after_banner: "binds (after_banner w) = []"
  by (simp add: after_banner_def serving_def binds_diagnostics split: option.split sum.split)

lemma takeWhile_prints:
  "takeWhile (\<lambda>e. \<not> is_open e) (map Print xs @ es) =
     map Print xs @ takeWhile (\<lambda>e. \<not> is_open e) es"
  by (induction xs) simp_all

lemma no_chdir_diagnostics: "Chdir d \<notin> set (diagnostics u e)"
  by (cases e) simp_all

lemma no_open_diagnostics: "BrowserOpen x \<notin> set (diagnostics u e)"
  by (cases e) simp_all

lemma no_serve_diagnostics: "ServeForever \<notin> set (diagnostics u e)"
  by (cases e) simp_all

text \<open>
  The server is running exactly when it was bound, the banner was printed, and the
  browser step was skipped or its call returned.
\<close>

lemma serving_iff:
  "ServeForever \<in> set (events w) \<longleftrightarrow>
     bind_raises w = None \<and> unicode_stdout w \<and>
     (no_browser (argv w) \<or> (\<exists>b. browser_result w = Inr b))"
  by (auto simp add: events_eq after_banner_def serving_def no_serve_diagnostics
      split: option.splits sum.splits if_splits)

lemma browser_step_iff:
  "BrowserOpen u \<in> set (events w) \<longleftrightarrow>
     u = index_url \<and> bind_raises w = None \<and> unicode_stdout w \<and> \<not> no_browser (argv w)"
  by (auto simp add: events_eq after_banner_def serving_def no_open_diagnostics
      split: option.splits sum.splits if_splits)

lemma wfile_send_headers:
  "wfile (fold (\<lambda>(k, v). send_header k v) hs h) = wfile h"
  by (induction hs arbitrary: h) (simp_all add: send_header_def split: prod.split)

lemma version_send_headers:
  "request_version (fold (\<lambda>(k, v). send_header k v) hs h) = request_version h"
  by (induction hs arbitrary: h) (simp_all add: send_header_def split: prod.split)

lemma buffer_send_headers_09:
  "request_version h = ''HTTP/0.9'' \<Longrightarrow> fold (\<lambda>(k, v). send_header k v) hs h = h"
  by (induction hs arbitrary: h) (simp_all add: send_header_def split: prod.split)

subsection \<open>The response headers\<close>

text \<open>
  C1, as the program has it. While the version of the request in effect is not
  \<^verbatim>\<open>HTTP/0.9\<close>, whatever the handler has buffered when the headers are ended (so
  whatever the path and the status), the two isolation headers are written after
  everything generated so far and before the blank line that ends the header block, and
  every such response, for any generic handler and any path, ends its header block with
  them. While the version is \<^verbatim>\<open>HTTP/0.9\<close> ending the headers changes nothing, and the
  response has no header block at all.
\<close>

theorem isolation_headers_on_every_response:
  "(request_version h \<noteq> ''HTTP/0.9'' \<longrightarrow>
      wfile (end_headers h) = wfile h @ concat (headers_buffer h) @
        ''Cross-Origin-Embedder-Policy: require-corp'' @ CRLF @
        ''Cross-Origin-Opener-Policy: same-origin'' @ CRLF @ CRLF
      \<and> headers_buffer (end_headers h) = [])
   \<and> (version \<noteq> ''HTTP/0.9'' \<longrightarrow>
      (\<exists>generated. wfile (respond generic version path) = generated @
        ''Cross-Origin-Embedder-Policy: require-corp'' @ CRLF @
        ''Cross-Origin-Opener-Policy: same-origin'' @ CRLF @ CRLF))
   \<and> (request_version h = ''HTTP/0.9'' \<longrightarrow> end_headers h = h)
   \<and> wfile (respond generic ''HTTP/0.9'' path) = []"
proof -
  have a: "request_version h \<noteq> ''HTTP/0.9'' \<longrightarrow>
      wfile (end_headers h) = wfile h @ concat (headers_buffer h) @
        ''Cross-Origin-Embedder-Policy: require-corp'' @ CRLF @
        ''Cross-Origin-Opener-Policy: same-origin'' @ CRLF @ CRLF
      \<and> headers_buffer (end_headers h) = []" for h
    by (simp add: end_headers_def base_end_headers_def flush_headers_def send_header_def)
  have b: "request_version h = ''HTTP/0.9'' \<longrightarrow> end_headers h = h" for h
    by (simp add: end_headers_def base_end_headers_def send_header_def)
  have c: "version \<noteq> ''HTTP/0.9'' \<longrightarrow>
      (\<exists>generated. wfile (respond generic version path) = generated @
        ''Cross-Origin-Embedder-Policy: require-corp'' @ CRLF @
        ''Cross-Origin-Opener-Policy: same-origin'' @ CRLF @ CRLF)"
    using a by (simp add: respond_def version_send_headers send_response_only_def
        split: prod.split)
  have d: "wfile (respond generic ''HTTP/0.9'' path) = []"
    by (simp add: respond_def b buffer_send_headers_09 send_response_only_def
        split: prod.split)
  show ?thesis using a b c d by blast
qed

theorem isolation_headers_on_every_response_witness:
  "wfile (respond file_found ''HTTP/1.0'' ''/index.html'') =
     ''HTTP/1.0 200 OK'' @ CRLF @ ''Content-type: text/html'' @ CRLF @
     ''Content-Length: 512'' @ CRLF @
     ''Cross-Origin-Embedder-Policy: require-corp'' @ CRLF @
     ''Cross-Origin-Opener-Policy: same-origin'' @ CRLF @ CRLF"
proof -
  let ?h = "fold (\<lambda>(k, v). send_header k v) (snd (file_found ''/index.html''))
      (send_response_only 200 ''OK''
        \<lparr>request_version = ''HTTP/1.0'', protocol_version = ''HTTP/1.0'',
         headers_buffer = [], wfile = []\<rparr>)"
  have v: "request_version ?h \<noteq> ''HTTP/0.9''"
    by (simp add: version_send_headers send_response_only_def)
  have "wfile (end_headers ?h) = wfile ?h @ concat (headers_buffer ?h) @
        ''Cross-Origin-Embedder-Policy: require-corp'' @ CRLF @
        ''Cross-Origin-Opener-Policy: same-origin'' @ CRLF @ CRLF"
    using isolation_headers_on_every_response [of ?h] v by blast
  then show ?thesis
    by (simp add: respond_def file_found_def send_header_def send_response_only_def
        str_int_def str_nat.simps digits_def)
qed

text \<open>
  C1 as it is worded, for every response, fails for a request line that names no
  version, \<^verbatim>\<open>GET /index.html\<close>: the file is found and sent with no status line and no
  header, so with neither isolation header.
\<close>

theorem http09_response_counterexample:
  "wfile (respond file_found ''HTTP/0.9'' ''/index.html'') = []
   \<and> headers_buffer (respond file_found ''HTTP/0.9'' ''/index.html'') = []"
  by (simp add: respond_def file_found_def send_header_def send_response_only_def
      end_headers_def base_end_headers_def)

subsection \<open>Startup\<close>

text \<open>
  C5. The first effect of every run is the change of directory to the directory of the
  absolute path of the script; the bind comes right after it, no later effect changes
  the directory again, and the working directory of the process stays that directory.
\<close>

theorem root_is_script_directory:
  "(\<exists>rest. events w = Chdir (dirname w (abspath w (script_file w))) # Bind [] PORT # rest
       \<and> (\<forall>d. Chdir d \<notin> set rest))
   \<and> cwd (fst (main w)) = dirname w (abspath w (script_file w))"
  by (auto simp add: events_eq final_cwd serving_root_def after_banner_def serving_def
      no_chdir_diagnostics split: option.split sum.split)

text \<open>
  C6. In every world, so for every command line and every environment, the program
  binds once, the empty host and port 8000.
\<close>

theorem port_is_always_8000: "binds (events w) = [([], 8000)]"
  by (simp add: events_eq binds_append binds_prints binds_diagnostics binds_after_banner
      PORT_def split: option.split)

subsection \<open>The browser\<close>

text \<open>
  C8. When the bind fails the run holds no call of the browser; and a call of the
  browser, when there is one, comes in a run whose bind succeeded, and everything
  before it is the change of directory, the bind and the eight lines of the banner.
\<close>

theorem browser_only_after_bind:
  "(bind_raises w \<noteq> None \<longrightarrow> (\<forall>u. BrowserOpen u \<notin> set (events w)))
   \<and> (\<forall>u. BrowserOpen u \<in> set (events w) \<longrightarrow>
        bind_raises w = None
        \<and> takeWhile (\<lambda>e. \<not> is_open e) (events w) =
            Chdir (serving_root w) # Bind [] PORT #
              map Print (banner (getcwd w (serving_root w))))"
proof -
  have "takeWhile (\<lambda>e. \<not> is_open e) (events w) =
      Chdir (serving_root w) # Bind [] PORT # map Print (banner (getcwd w (serving_root w)))"
    if "bind_raises w = None" "unicode_stdout w" "\<not> no_browser (argv w)"
    using that by (simp add: events_eq after_banner_def takeWhile_prints)
  then show ?thesis
    by (auto simp add: browser_step_iff)
qed

theorem browser_only_after_bind_witness:
  "(\<forall>u. BrowserOpen u \<notin> set (events port_taken_linux))
   \<and> takeWhile (\<lambda>e. \<not> is_open e) (events plain_world) =
       Chdir ''/srv/blink_and_bloom'' # Bind [] 8000 # map Print (banner ''/srv/blink_and_bloom'')"
proof -
  have a: "bind_raises port_taken_linux \<noteq> None"
    by (simp add: port_taken_linux_def)
  have b: "BrowserOpen index_url \<in> set (events plain_world)"
    by (simp add: browser_step_iff no_browser_def plain_world_def)
  have c: "serving_root plain_world = ''/srv/blink_and_bloom''"
    by (simp add: serving_root_def plain_world_def example_dirname_def)
  have d: "getcwd plain_world = (\<lambda>d. d)"
    by (simp add: plain_world_def)
  have "\<forall>u. BrowserOpen u \<notin> set (events port_taken_linux)"
    using browser_only_after_bind [of port_taken_linux] a by blast
  moreover have "takeWhile (\<lambda>e. \<not> is_open e) (events plain_world) =
      Chdir (serving_root plain_world) # Bind [] PORT #
        map Print (banner (getcwd plain_world (serving_root plain_world)))"
    using browser_only_after_bind [of plain_world] b by blast
  ultimately show ?thesis
    by (simp add: c d PORT_def)
qed







text \<open>
  C7, as the program has it, for a run that takes the browser step. When
  \<^verbatim>\<open>webbrowser.open\<close> returns, the run is the same whether it reports a launched browser
  or not: the call is followed at once by \<^verbatim>\<open>serve_forever\<close>, and a server that nothing
  interrupts keeps serving. When \<^verbatim>\<open>webbrowser.open\<close> raises, nothing at line 43 catches
  the exception: \<^verbatim>\<open>serve_forever\<close> is never called, the server is closed, and the run
  ends as the \<^verbatim>\<open>except\<close> clauses end it for that exception (their message for an
  \<^verbatim>\<open>OSError\<close> or a keyboard interrupt, a traceback for anything else).
\<close>

theorem browser_outcome_is_discarded:
  assumes "BrowserOpen index_url \<in> set (events w)"
  shows "(\<forall>b. browser_result w = Inr b \<longrightarrow>
            main (w\<lparr>browser_result := Inr (\<not> b)\<rparr>) = main w
            \<and> (\<exists>pre post. events w = pre @ BrowserOpen index_url # ServeForever # post)
            \<and> (serve_raises w = None \<longrightarrow> ending w = Serving))
    \<and> (\<forall>e. browser_result w = Inl e \<longrightarrow>
            ServeForever \<notin> set (events w)
            \<and> (\<exists>pre. events w = pre @ BrowserOpen index_url # ServerClose # diagnostics True e)
            \<and> ending w = caught True e \<and> ending w \<noteq> Serving)"
proof -
  from assms have s: "bind_raises w = None" "unicode_stdout w" "\<not> no_browser (argv w)"
    by (simp_all add: browser_step_iff)
  have r: "events w =
      (Chdir (serving_root w) # Bind [] PORT # map Print (banner (getcwd w (serving_root w)))) @
      BrowserOpen index_url # ServeForever #
      (case serve_raises w of None \<Rightarrow> [] | Some e \<Rightarrow> ServerClose # diagnostics True e)"
    if "browser_result w = Inr b" for b
    using s that by (simp add: events_eq after_banner_def serving_def split: option.split)
  have r': "\<exists>pre post. events w = pre @ BrowserOpen index_url # ServeForever # post"
    if "browser_result w = Inr b" for b
    using r [OF that] by blast
  have m: "main (w\<lparr>browser_result := Inr (\<not> b)\<rparr>) = main w" if "browser_result w = Inr b" for b
    using s that
    by (simp add: main_eq after_banner_def serving_def serving_root_def split: option.split)
  have k: "serve_raises w = None \<longrightarrow> ending w = Serving" if "browser_result w = Inr b" for b
    using s that by (simp add: ending_eq)
  have x: "events w =
      (Chdir (serving_root w) # Bind [] PORT # map Print (banner (getcwd w (serving_root w)))) @
      BrowserOpen index_url # ServerClose # diagnostics True e"
    if "browser_result w = Inl e" for e
    using s that by (simp add: events_eq after_banner_def)
  have x': "\<exists>pre. events w = pre @ BrowserOpen index_url # ServerClose # diagnostics True e"
    if "browser_result w = Inl e" for e
    using x [OF that] by blast
  have n: "ServeForever \<notin> set (events w)" if "browser_result w = Inl e" for e
    using that by (simp add: serving_iff s)
  have y: "ending w = caught True e \<and> ending w \<noteq> Serving" if "browser_result w = Inl e" for e
    using s that by (cases e) (simp_all add: ending_eq)
  show ?thesis
    using r' m k x' n y by blast
qed

theorem browser_outcome_is_discarded_witness:
  "main no_browser_found_world = main plain_world
   \<and> ending no_browser_found_world = Serving
   \<and> ServeForever \<notin> set (events browser_error_world)"
proof -
  have a: "BrowserOpen index_url \<in> set (events no_browser_found_world)"
    by (simp add: browser_step_iff no_browser_def no_browser_found_world_def plain_world_def)
  have b: "BrowserOpen index_url \<in> set (events browser_error_world)"
    by (simp add: browser_step_iff no_browser_def browser_error_world_def plain_world_def)
  have c: "browser_result no_browser_found_world = Inr False"
    by (simp add: no_browser_found_world_def)
  have d: "browser_result browser_error_world = Inl (OtherException ''webbrowser.Error'')"
    by (simp add: browser_error_world_def)
  have "main (no_browser_found_world\<lparr>browser_result := Inr (\<not> False)\<rparr>) =
      main no_browser_found_world
    \<and> (serve_raises no_browser_found_world = None \<longrightarrow> ending no_browser_found_world = Serving)"
    using browser_outcome_is_discarded [OF a] c by blast
  moreover have "ServeForever \<notin> set (events browser_error_world)"
    using browser_outcome_is_discarded [OF b] d by blast
  ultimately show ?thesis
    by (simp add: no_browser_found_world_def plain_world_def)
qed

text \<open>
  C7 as it is worded, for any reason, fails when the browser call raises
  \<^verbatim>\<open>webbrowser.Error\<close>: the call is made, \<^verbatim>\<open>serve_forever\<close> is never reached, and the
  process ends with a traceback and status 1.
\<close>

theorem browser_exception_counterexample:
  "BrowserOpen ''http://localhost:8000/index.html'' \<in> set (events browser_error_world)
   \<and> ServeForever \<notin> set (events browser_error_world)
   \<and> ending browser_error_world = Uncaught (OtherException ''webbrowser.Error'')
   \<and> exit_code (ending browser_error_world) = Some 1"
  by (simp add: browser_step_iff serving_iff ending_eq no_browser_def index_url_eq
      browser_error_world_def plain_world_def)

subsection \<open>The end of a run\<close>






text \<open>
  Where \<^verbatim>\<open>EADDRINUSE\<close> is 48 the branch for a taken port is reached: the program prints
  that port 8000 is already in use, and the advice that follows.
\<close>

lemma port_in_use_on_bsd:
  "events port_taken_bsd =
     [Chdir ''/srv/blink_and_bloom'', Bind [] 8000,
      Print ([CHR 0xE2, CHR 0x9D, CHR 0x8C] @ '' Port 8000 is already in use''),
      Print ''Try a different port or stop the existing server'']"
  by (simp add: events_eq port_taken_bsd_def EADDRINUSE_bsd_def plain_world_def
      serving_root_def example_dirname_def PORT_def str_int_def
      str_nat.simps digits_def in_use_msg_def in_use_hint_def)

text \<open>
  C3, on Linux. The port is taken and the bind raises \<^verbatim>\<open>OSError\<close> with errno 98. The
  test \<^verbatim>\<open>e.errno == 48\<close> fails, so the program prints the line for any other failure,
  with the underlying message, and never the line that says the port is in use; it
  returns without a traceback.
\<close>

theorem port_in_use_on_linux:
  "bind_raises port_taken_linux = Some (OSError 98 ''Address already in use'')
   \<and> events port_taken_linux =
       [Chdir ''/srv/blink_and_bloom'', Bind [] 8000,
        Print ([CHR 0xE2, CHR 0x9D, CHR 0x8C] @
          '' Error starting server: [Errno 98] Address already in use'')]
   \<and> Print in_use_msg \<notin> set (events port_taken_linux)
   \<and> ending port_taken_linux = Returned"
  by (simp add: events_eq ending_eq port_taken_linux_def EADDRINUSE_linux_def plain_world_def
      serving_root_def example_dirname_def PORT_def error_msg_def str_OSError_def str_int_def
      str_nat.simps digits_def in_use_msg_def)

end
